theory Spec2Isabelle
  imports Main
begin

section \<open>The credential and token lifecycle of the DevLinks backend\<close>

text \<open>
  A shallow embedding of \<^verbatim>\<open>controllers/authController.js\<close>: the handlers
  \<^verbatim>\<open>signup\<close>, \<^verbatim>\<open>verifyEmail\<close>, \<^verbatim>\<open>login\<close>, \<^verbatim>\<open>protected\<close>,
  \<^verbatim>\<open>forgotPassword\<close> and \<^verbatim>\<open>resetPassword\<close>. The user collection is an
  explicit state, a list of documents in the order the database scans them. Every
  handler returns what it hands to the client (a response, or the error it passes to
  \<^verbatim>\<open>next\<close>), and the handlers that write return the collection afterwards.
\<close>

subsection \<open>Data\<close>

type_synonym object_id = string

text \<open>A document of the user collection. \<open>uid\<close> is the field \<^verbatim>\<open>_id\<close>; a field
  that is \<^verbatim>\<open>undefined\<close> in the document is \<open>None\<close>. Times are milliseconds, as
  \<^verbatim>\<open>Date.now()\<close> gives them.\<close>

record user =
  uid :: object_id
  email :: string
  password :: string
  isVerified :: bool
  emailVerificationToken :: "string option"
  passwordResetToken :: "string option"
  passwordResetExpires :: "int option"

text \<open>What a handler can throw besides an \<^verbatim>\<open>AppError\<close>: \<^verbatim>\<open>catchAsync\<close> passes
  a thrown exception on to \<^verbatim>\<open>next\<close> as it is.\<close>

datatype js_exception =
  TypeError | ValidationError | MailError | JsonWebTokenError | TokenExpiredError

text \<open>\<^verbatim>\<open>new AppError(message, statusCode)\<close>, or an exception that was thrown.\<close>

datatype error = AppError string nat | Thrown js_exception

text \<open>\<^verbatim>\<open>res.status(code).json({status: 'success', message})\<close>, or the response of
  \<^verbatim>\<open>createSendToken\<close>, which carries the signed session token.\<close>

datatype response = Json nat string | Session nat string

text \<open>The collaborators the controller calls and that live outside it: the SHA-256
  fingerprint of \<^verbatim>\<open>crypto\<close>, the password hashing and comparison of the user
  model, the validation policy of the schema, and the signing and verification of
  \<^verbatim>\<open>jsonwebtoken\<close> under \<^verbatim>\<open>config.JWT_SECRET\<close>. The theorems hold for every
  choice of them.\<close>

record env =
  sha256 :: "string \<Rightarrow> string"
  hashPassword :: "string \<Rightarrow> string"
  matchPassword :: "string \<Rightarrow> string \<Rightarrow> bool"
  policy :: "string \<Rightarrow> string \<Rightarrow> bool"
  jwt_sign :: "object_id \<Rightarrow> string"
  jwt_verify :: "string \<Rightarrow> js_exception + object_id"

subsection \<open>The store\<close>

text \<open>\<^verbatim>\<open>User.findOne(filter)\<close>: the first document that satisfies the filter.\<close>

definition findOne :: "(user \<Rightarrow> bool) \<Rightarrow> user list \<Rightarrow> user option" where
  "findOne p s = find p s"

definition findById :: "object_id \<Rightarrow> user list \<Rightarrow> user option" where
  "findById i s = findOne (\<lambda>u. uid u = i) s"

text \<open>\<^verbatim>\<open>doc.save()\<close> once validation has passed: a document whose \<^verbatim>\<open>_id\<close> is
  stored replaces the stored one, a new document is inserted at the end.\<close>

definition save :: "user \<Rightarrow> user list \<Rightarrow> user list" where
  "save u s =
     (if list_ex (\<lambda>r. uid r = uid u) s
      then map (\<lambda>r. if uid r = uid u then u else r) s
      else s @ [u])"

subsection \<open>JavaScript values\<close>

text \<open>A request value that may be missing: \<open>None\<close> is \<^verbatim>\<open>undefined\<close>.
  \<^verbatim>\<open>!v\<close> holds for \<^verbatim>\<open>undefined\<close> and for the empty string.\<close>

definition falsy :: "string option \<Rightarrow> bool" where
  "falsy v = (case v of None \<Rightarrow> True | Some x \<Rightarrow> x = [])"

text \<open>\<^verbatim>\<open>crypto.createHash('sha256').update(token).digest('hex')\<close>: \<^verbatim>\<open>update\<close>
  accepts a string and throws a \<^verbatim>\<open>TypeError\<close> on \<^verbatim>\<open>undefined\<close>.\<close>

definition createHash :: "env \<Rightarrow> string option \<Rightarrow> js_exception + string" where
  "createHash e token = (case token of None \<Rightarrow> Inl TypeError | Some t \<Rightarrow> Inr (sha256 e t))"

text \<open>\<^verbatim>\<open>str.startsWith(p)\<close> and \<^verbatim>\<open>str.split(' ')\<close>.\<close>

definition startsWith :: "string \<Rightarrow> string \<Rightarrow> bool" where
  "startsWith x p = (take (length p) x = p)"

fun split_space :: "string \<Rightarrow> string list" where
  "split_space [] = [[]]"
| "split_space (c # cs) =
     (if c = CHR '' '' then [] # split_space cs
      else (case split_space cs of [] \<Rightarrow> [[c]] | w # ws \<Rightarrow> (c # w) # ws))"

subsection \<open>The user model\<close>

text \<open>Modelled from the spec: the schema validation of \<^verbatim>\<open>model/userModel\<close>, which
  is not among the sources. A save that validates fails with a \<^verbatim>\<open>ValidationError\<close> when
  password and confirmation differ or the inputs fail the minimum policy.\<close>

definition validate :: "env \<Rightarrow> string \<Rightarrow> string \<Rightarrow> string \<Rightarrow> bool" where
  "validate e em pw cpw = (policy e em pw \<and> pw = cpw)"

text \<open>Modelled from the spec: \<^verbatim>\<open>createEmailVerificationToken\<close> of the user model, which
  is not among the sources. It takes a random raw token (here the argument \<open>raw\<close>),
  stores its fingerprint in the document and returns the raw token.\<close>

definition createEmailVerificationToken :: "env \<Rightarrow> string \<Rightarrow> user \<Rightarrow> string \<times> user" where
  "createEmailVerificationToken e raw u =
     (raw, u\<lparr>emailVerificationToken := Some (sha256 e raw)\<rparr>)"

text \<open>Modelled from the spec: \<^verbatim>\<open>createPasswordResetToken\<close> of the user model, which is
  not among the sources. It stores the fingerprint of a random raw token and an expiry
  10 minutes after the current time, and returns the raw token.\<close>

definition createPasswordResetToken :: "env \<Rightarrow> string \<Rightarrow> int \<Rightarrow> user \<Rightarrow> string \<times> user" where
  "createPasswordResetToken e raw now u =
     (raw, u\<lparr>passwordResetToken := Some (sha256 e raw),
             passwordResetExpires := Some (now + 10 * 60 * 1000)\<rparr>)"

text \<open>Modelled from the spec: \<^verbatim>\<open>createSendToken\<close> of \<^verbatim>\<open>utils/appToken\<close>, which is
  not among the sources. It signs a session token for the user's id and sends it with
  the given status.\<close>

definition createSendToken :: "env \<Rightarrow> user \<Rightarrow> nat \<Rightarrow> response" where
  "createSendToken e u code = Session code (jwt_sign e (uid u))"

subsection \<open>The handlers\<close>

text \<open>\<^verbatim>\<open>signup\<close>. \<open>new_id\<close> is the \<^verbatim>\<open>_id\<close> the new document gets, \<open>raw\<close> the random
  verification token, \<open>sent\<close> whether \<^verbatim>\<open>sendEmail\<close> returns (it throws otherwise).
  \<^verbatim>\<open>newUser.save()\<close> validates first and throws without writing, and stores the
  password hashed (the spec's \<open>hashPassword\<close>). Nothing follows a throw of
  \<^verbatim>\<open>sendEmail\<close>: \<^verbatim>\<open>catchAsync\<close> hands the exception to \<^verbatim>\<open>next\<close>.\<close>

definition signup ::
  "env \<Rightarrow> object_id \<Rightarrow> string \<Rightarrow> bool \<Rightarrow> user list \<Rightarrow> string \<Rightarrow> string \<Rightarrow> string
     \<Rightarrow> (error + response) \<times> user list" where
  "signup e new_id raw sent s req_email req_password req_confirmPassword =
     (case findOne (\<lambda>u. email u = req_email) s of
        Some existingUser \<Rightarrow>
          (Inl (AppError ''User already exists with this email address.'' 400), s)
      | None \<Rightarrow>
          (let newUser = \<lparr>uid = new_id, email = req_email, password = req_password,
                          isVerified = False, emailVerificationToken = None,
                          passwordResetToken = None, passwordResetExpires = None\<rparr>;
               (verificationToken, newUser) = createEmailVerificationToken e raw newUser
           in if \<not> validate e req_email req_password req_confirmPassword
              then (Inl (Thrown ValidationError), s)
              else
                (let s' = save (newUser\<lparr>password := hashPassword e req_password\<rparr>) s
                 in if \<not> sent then (Inl (Thrown MailError), s')
                    else (Inr (Json 201
                            ''Verification email sent. Please verify your email address.''),
                          s'))))"

text \<open>\<^verbatim>\<open>verifyEmail\<close>. \<open>req_token\<close> is \<^verbatim>\<open>req.query.token\<close>.\<close>

definition verifyEmail ::
  "env \<Rightarrow> user list \<Rightarrow> string option \<Rightarrow> (error + response) \<times> user list" where
  "verifyEmail e s req_token =
     (case createHash e req_token of
        Inl ex \<Rightarrow> (Inl (Thrown ex), s)
      | Inr hashedToken \<Rightarrow>
          (case findOne (\<lambda>u. emailVerificationToken u = Some hashedToken) s of
             None \<Rightarrow> (Inl (AppError ''Invalid or expired verification token.'' 400), s)
           | Some user \<Rightarrow>
               (Inr (Json 200 ''Email verified successfully.''),
                save (user\<lparr>isVerified := True\<rparr>) s)))"

text \<open>\<^verbatim>\<open>login\<close>. It writes nothing, so it returns only what the client gets. Past
  the first check both fields are strings; the last case is there for totality only.\<close>

definition login :: "env \<Rightarrow> user list \<Rightarrow> string option \<Rightarrow> string option \<Rightarrow> error + response" where
  "login e s req_email req_password =
     (if falsy req_email \<or> falsy req_password
      then Inl (AppError ''Please provide email and password.'' 400)
      else
        (case (req_email, req_password) of
           (Some em, Some pw) \<Rightarrow>
             (case findOne (\<lambda>u. email u = em) s of
                None \<Rightarrow> Inl (AppError ''Invalid email or password.'' 401)
              | Some user \<Rightarrow>
                  if \<not> matchPassword e pw (password user)
                  then Inl (AppError ''Invalid email or password.'' 401)
                  else if \<not> isVerified user
                  then Inl (AppError
                         ''Your email is not verified. Please verify your email address.'' 401)
                  else Inr (createSendToken e user 200))
         | _ \<Rightarrow> Inl (AppError ''Please provide email and password.'' 400)))"

text \<open>The token \<^verbatim>\<open>protected\<close> reads from the \<^verbatim>\<open>Authorization\<close> header: the second
  piece of the header split at single spaces, when the header is there and starts with
  \<^verbatim>\<open>Bearer\<close>.\<close>

definition bearer_token :: "string option \<Rightarrow> string option" where
  "bearer_token authorization =
     (case authorization of
        None \<Rightarrow> None
      | Some h \<Rightarrow>
          if h \<noteq> [] \<and> startsWith h ''Bearer''
          then (case split_space h of a # t # rest \<Rightarrow> Some t | _ \<Rightarrow> None)
          else None)"

text \<open>\<^verbatim>\<open>protected\<close>. On success it sets \<^verbatim>\<open>req.user\<close> and calls \<^verbatim>\<open>next()\<close>: the
  result is the user the downstream handler finds in the request. Both checks of the
  token are kept, in the order of the source. An exception of \<^verbatim>\<open>jwt.verify\<close> goes to
  \<^verbatim>\<open>next\<close> as it is.\<close>

definition protected :: "env \<Rightarrow> user list \<Rightarrow> string option \<Rightarrow> error + user" where
  "protected e s authorization =
     (let token = bearer_token authorization
      in if falsy token \<or> (case token of None \<Rightarrow> False | Some t \<Rightarrow> length t < 20)
         then Inl (AppError ''Invalid token provided'' 401)
         else if falsy token
         then Inl (AppError ''You are not logged in! Please log in to get access.'' 401)
         else
           (case token of
              None \<Rightarrow> Inl (Thrown JsonWebTokenError)
            | Some t \<Rightarrow>
                (case jwt_verify e t of
                   Inl ex \<Rightarrow> Inl (Thrown ex)
                 | Inr decoded_id \<Rightarrow>
                     (case findById decoded_id s of
                        None \<Rightarrow>
                          Inl (AppError
                            ''The user belonging to this token does no longer exist.'' 401)
                      | Some currentUser \<Rightarrow> Inr currentUser))))"

text \<open>\<^verbatim>\<open>forgotPassword\<close>. \<open>raw\<close> is the random reset token, \<open>now\<close> the current time,
  \<open>sent\<close> whether \<^verbatim>\<open>sendEmail\<close> returns. Both saves skip validation.\<close>

definition forgotPassword ::
  "env \<Rightarrow> string \<Rightarrow> int \<Rightarrow> bool \<Rightarrow> user list \<Rightarrow> string \<Rightarrow> (error + response) \<times> user list" where
  "forgotPassword e raw now sent s req_email =
     (case findOne (\<lambda>u. email u = req_email) s of
        None \<Rightarrow>
          (Inl (AppError (''We can'' @ [CHR 0x27] @ ''t find a user with that email address.'') 404),
           s)
      | Some user \<Rightarrow>
          (let (resetPasswordToken, user) = createPasswordResetToken e raw now user;
               s' = save user s
           in if sent
              then (Inr (Json 200 ''Password reset email sent. Please check your email.''), s')
              else
                (Inl (AppError
                   ''There was an error sending the password reset email. Please try again later.''
                   500),
                 save (user\<lparr>passwordResetToken := None, passwordResetExpires := None\<rparr>) s')))"

text \<open>\<^verbatim>\<open>resetPassword\<close>. The filter asks for the fingerprint and for an expiry
  \<^verbatim>\<open>$gt\<close> the current time, which a document without expiry does not satisfy. The
  save validates, and stores the new password hashed.\<close>

definition resetPassword ::
  "env \<Rightarrow> int \<Rightarrow> user list \<Rightarrow> string option \<Rightarrow> string \<Rightarrow> string
     \<Rightarrow> (error + response) \<times> user list" where
  "resetPassword e now s req_token req_password req_confirmPassword =
     (case createHash e req_token of
        Inl ex \<Rightarrow> (Inl (Thrown ex), s)
      | Inr hashedToken \<Rightarrow>
          (case findOne (\<lambda>u. passwordResetToken u = Some hashedToken
                            \<and> (case passwordResetExpires u of
                                  None \<Rightarrow> False | Some t \<Rightarrow> t > now)) s of
             None \<Rightarrow>
               (Inl (AppError ''Password reset token is invalid or has expired.'' 400), s)
           | Some user \<Rightarrow>
               if \<not> validate e (email user) req_password req_confirmPassword
               then (Inl (Thrown ValidationError), s)
               else
                 (let user = user\<lparr>password := hashPassword e req_password,
                                   passwordResetToken := None,
                                   passwordResetExpires := None\<rparr>
                  in (Inr (createSendToken e user 200), save user s))))"

subsection \<open>A concrete instance\<close>

text \<open>Toy collaborators for evaluating the handlers: the fingerprint puts \<open>#\<close> in front
  of the token, the password hash puts \<open>$\<close> in front of the password, the policy asks
  for an address and eight characters, a session token is \<open>header.payload.signature.\<close>
  followed by the id.\<close>

definition demo_env :: env where
  "demo_env =
     \<lparr>sha256 = (\<lambda>x. CHR ''#'' # x),
      hashPassword = (\<lambda>x. CHR ''$'' # x),
      matchPassword = (\<lambda>pw h. h = CHR ''$'' # pw),
      policy = (\<lambda>em pw. em \<noteq> [] \<and> 8 \<le> length pw),
      jwt_sign = (\<lambda>i. ''header.payload.signature.'' @ i),
      jwt_verify = (\<lambda>t. if take 25 t = ''header.payload.signature.'' then Inr (drop 25 t)
                         else Inl JsonWebTokenError)\<rparr>"

text \<open>The document that \<^verbatim>\<open>signup\<close> stores for \<open>a@x.com\<close> with password \<open>Pw123456\<close>,
  id \<open>u1\<close> and raw verification token \<open>tok\<close>.\<close>

definition alice :: user where
  "alice =
     \<lparr>uid = ''u1'', email = ''a@x.com'', password = ''$Pw123456'', isVerified = False,
      emailVerificationToken = Some ''#tok'', passwordResetToken = None,
      passwordResetExpires = None\<rparr>"

text \<open>A second user, who signed up and has not redeemed the verification token.\<close>

definition bob :: user where
  "bob =
     \<lparr>uid = ''u2'', email = ''b@x.com'', password = ''$Secret99'', isVerified = False,
      emailVerificationToken = Some ''#bobtok'', passwordResetToken = None,
      passwordResetExpires = None\<rparr>"

text \<open>The first user, verified, with a pending password reset: raw token \<open>rst\<close>,
  issued at time 1000, so that it expires at 601000.\<close>

definition alice_pending :: user where
  "alice_pending =
     alice\<lparr>isVerified := True, passwordResetToken := Some ''#rst'',
           passwordResetExpires := Some 601000\<rparr>"

section \<open>Properties\<close>

subsection \<open>Lookups and saves\<close>

lemma findOne_SomeD: "findOne p s = Some u \<Longrightarrow> u \<in> set s \<and> p u"
  by (auto simp: findOne_def find_Some_iff)

lemma findOne_None_iff: "findOne p s = None \<longleftrightarrow> (\<forall>u\<in>set s. \<not> p u)"
  by (auto simp: findOne_def find_None_iff)

lemma save_stored:
  "u \<in> set s \<Longrightarrow> uid u' = uid u \<Longrightarrow> save u' s = map (\<lambda>r. if uid r = uid u then u' else r) s"
  by (auto simp: save_def list_ex_iff)

lemma save_fresh: "\<forall>r\<in>set s. uid r \<noteq> uid u \<Longrightarrow> save u s = s @ [u]"
  by (auto simp: save_def list_ex_iff)

lemma findOne_replace:
  "findOne p s = Some u \<Longrightarrow> p u' \<Longrightarrow>
   findOne p (map (\<lambda>r. if uid r = uid u then u' else r) s) = Some u'"
  unfolding findOne_def by (induction s) (auto split: if_splits)

lemma findOne_replace_None:
  "\<forall>r\<in>set s. q r \<longrightarrow> uid r = i \<Longrightarrow> \<not> q u' \<Longrightarrow>
   findOne q (map (\<lambda>r. if uid r = i then u' else r) s) = None"
  by (auto simp: findOne_None_iff)

lemma findById_replace:
  "u \<in> set s \<Longrightarrow> uid u' = uid u \<Longrightarrow>
   findById (uid u) (map (\<lambda>r. if uid r = uid u then u' else r) s) = Some u'"
  unfolding findById_def findOne_def by (induction s) auto


lemma replace_same:
  "u \<in> set s \<Longrightarrow> distinct (map uid s) \<Longrightarrow>
   map (\<lambda>r. if uid r = uid u then f u else r) s = map (\<lambda>r. if uid r = uid u then f r else r) s"
  by (auto simp: distinct_map inj_on_def)

lemma replace_twice:
  "uid b = i \<Longrightarrow>
   map (\<lambda>r. if uid r = i then a else r) (map (\<lambda>r. if uid r = i then b else r) s)
   = map (\<lambda>r. if uid r = i then a else r) s"
  by (induction s) auto

lemma findById_SomeD: "findById i s = Some u \<Longrightarrow> u \<in> set s \<and> uid u = i"
  unfolding findById_def using findOne_SomeD by fastforce

subsection \<open>Email verification\<close>

text \<open>
  C1, as the code has it. A redemption of a raw verification token that succeeds sets
  \<open>isVerified\<close> of the matched document, and leaves the fingerprint in place: a second
  \<^verbatim>\<open>verifyEmail\<close> with the same raw token finds the same document and answers 200
  \<open>Email verified successfully.\<close> again, with the collection left as the first
  redemption made it. The token is redeemable any number of times.
\<close>

theorem verifyEmail_twice:
  assumes "verifyEmail e s (Some t) = (Inr r, s')"
  shows "(\<exists>u. findOne (\<lambda>u. emailVerificationToken u = Some (sha256 e t)) s = Some u
            \<and> findById (uid u) s' = Some (u\<lparr>isVerified := True\<rparr>))
         \<and> verifyEmail e s' (Some t) = (Inr (Json 200 ''Email verified successfully.''), s')"
proof -
  let ?p = "\<lambda>u. emailVerificationToken u = Some (sha256 e t)"
  from assms obtain u where u: "findOne ?p s = Some u"
    and s': "s' = save (u\<lparr>isVerified := True\<rparr>) s"
    by (auto simp: verifyEmail_def createHash_def split: option.splits)
  let ?u' = "u\<lparr>isVerified := True\<rparr>"
  from u have mem: "u \<in> set s" and pu: "?p u"
    using findOne_SomeD by fastforce+
  have rep: "s' = map (\<lambda>r. if uid r = uid u then ?u' else r) s"
    using save_stored [OF mem, of ?u'] s' by simp
  have f1: "findById (uid u) s' = Some ?u'"
    using findById_replace [OF mem, of ?u'] rep by simp
  have f2: "findOne ?p s' = Some ?u'"
    using findOne_replace [OF u, of ?u'] pu rep by simp
  have mem': "?u' \<in> set s'"
    using findOne_SomeD [OF f2] by simp
  have "save (?u'\<lparr>isVerified := True\<rparr>) s' = s'"
    using save_stored [OF mem', of ?u'] rep by simp
  then have "verifyEmail e s' (Some t) = (Inr (Json 200 ''Email verified successfully.''), s')"
    using f2 by (simp add: verifyEmail_def createHash_def)
  with u f1 show ?thesis by blast
qed

theorem verifyEmail_twice_witness:
  "verifyEmail demo_env [alice] (Some ''tok'')
     = (Inr (Json 200 ''Email verified successfully.''), [alice\<lparr>isVerified := True\<rparr>])
   \<and> findById ''u1'' [alice\<lparr>isVerified := True\<rparr>] = Some (alice\<lparr>isVerified := True\<rparr>)
   \<and> verifyEmail demo_env [alice\<lparr>isVerified := True\<rparr>] (Some ''tok'')
     = (Inr (Json 200 ''Email verified successfully.''), [alice\<lparr>isVerified := True\<rparr>])"
proof -
  have first: "verifyEmail demo_env [alice] (Some ''tok'')
     = (Inr (Json 200 ''Email verified successfully.''), [alice\<lparr>isVerified := True\<rparr>])"
    by (simp add: verifyEmail_def createHash_def findOne_def save_def demo_env_def alice_def)
  have "findById ''u1'' [alice\<lparr>isVerified := True\<rparr>] = Some (alice\<lparr>isVerified := True\<rparr>)"
    by (simp add: findById_def findOne_def alice_def)
  with first verifyEmail_twice [OF first] show ?thesis by simp
qed

text \<open>
  C1, as the spec states it, fails: sign up \<open>a@x.com\<close>, redeem the raw token \<open>tok\<close>,
  redeem it again. The second redemption is answered with 200, not with the 400
  \<open>Invalid or expired verification token.\<close>
\<close>

theorem verifyEmail_second_redemption_counterexample:
  "signup demo_env ''u1'' ''tok'' True [] ''a@x.com'' ''Pw123456'' ''Pw123456''
     = (Inr (Json 201 ''Verification email sent. Please verify your email address.''), [alice])
   \<and> verifyEmail demo_env [alice] (Some ''tok'')
     = (Inr (Json 200 ''Email verified successfully.''), [alice\<lparr>isVerified := True\<rparr>])
   \<and> verifyEmail demo_env [alice\<lparr>isVerified := True\<rparr>] (Some ''tok'')
     = (Inr (Json 200 ''Email verified successfully.''), [alice\<lparr>isVerified := True\<rparr>])
   \<and> fst (verifyEmail demo_env [alice\<lparr>isVerified := True\<rparr>] (Some ''tok''))
     \<noteq> Inl (AppError ''Invalid or expired verification token.'' 400)"
  by (simp add: signup_def verifyEmail_def createHash_def findOne_def save_def validate_def
      createEmailVerificationToken_def demo_env_def alice_def)

text \<open>
  C8. A \<^verbatim>\<open>verifyEmail\<close> that succeeds changes one thing in the collection (whose
  \<^verbatim>\<open>_id\<close>s are distinct): the flag \<open>isVerified\<close> of the document it matched. Every other
  document and every other field is as before; in particular the column of verification
  fingerprints is unchanged, and the lookup by the same fingerprint still finds the
  document.
\<close>

theorem verifyEmail_frame:
  assumes d: "distinct (map uid s)"
    and ok: "verifyEmail e s tok = (Inr r, s')"
  shows "\<exists>t u. tok = Some t
           \<and> findOne (\<lambda>u. emailVerificationToken u = Some (sha256 e t)) s = Some u
           \<and> s' = map (\<lambda>r. if uid r = uid u then r\<lparr>isVerified := True\<rparr> else r) s
           \<and> map (\<lambda>r. r\<lparr>isVerified := True\<rparr>) s' = map (\<lambda>r. r\<lparr>isVerified := True\<rparr>) s
           \<and> map emailVerificationToken s' = map emailVerificationToken s
           \<and> findOne (\<lambda>u. emailVerificationToken u = Some (sha256 e t)) s'
               = Some (u\<lparr>isVerified := True\<rparr>)"
proof -
  from ok obtain t where t: "tok = Some t"
    by (cases tok) (simp_all add: verifyEmail_def createHash_def)
  let ?p = "\<lambda>u. emailVerificationToken u = Some (sha256 e t)"
  from ok t obtain u where u: "findOne ?p s = Some u"
    and s': "s' = save (u\<lparr>isVerified := True\<rparr>) s"
    by (auto simp: verifyEmail_def createHash_def split: option.splits)
  from findOne_SomeD [OF u] have mem: "u \<in> set s" and pu: "?p u"
    by simp_all
  have "s' = map (\<lambda>r. if uid r = uid u then u\<lparr>isVerified := True\<rparr> else r) s"
    using save_stored [OF mem, of "u\<lparr>isVerified := True\<rparr>"] s' by simp
  then have rep: "s' = map (\<lambda>r. if uid r = uid u then r\<lparr>isVerified := True\<rparr> else r) s"
    using replace_same [OF mem d, of "\<lambda>r. r\<lparr>isVerified := True\<rparr>"] by simp
  have flag: "map (\<lambda>r. r\<lparr>isVerified := True\<rparr>) s' = map (\<lambda>r. r\<lparr>isVerified := True\<rparr>) s"
    unfolding rep by simp
  have col: "map emailVerificationToken s' = map emailVerificationToken s"
    unfolding rep by simp
  have still: "findOne ?p s' = Some (u\<lparr>isVerified := True\<rparr>)"
    using findOne_replace [OF u, of "u\<lparr>isVerified := True\<rparr>"] pu
      save_stored [OF mem, of "u\<lparr>isVerified := True\<rparr>"] s' by simp
  show ?thesis
    by (rule exI [of _ t], rule exI [of _ u]) (use t u rep flag col still in blast)
qed

theorem verifyEmail_frame_witness:
  "distinct (map uid [bob, alice])
   \<and> verifyEmail demo_env [bob, alice] (Some ''tok'')
       = (Inr (Json 200 ''Email verified successfully.''), [bob, alice\<lparr>isVerified := True\<rparr>])
   \<and> map emailVerificationToken [bob, alice\<lparr>isVerified := True\<rparr>]
       = map emailVerificationToken [bob, alice]
   \<and> findOne (\<lambda>u. emailVerificationToken u = Some ''#tok'') [bob, alice\<lparr>isVerified := True\<rparr>]
       = Some (alice\<lparr>isVerified := True\<rparr>)"
proof -
  have d: "distinct (map uid [bob, alice])"
    by (simp add: bob_def alice_def)
  have ok: "verifyEmail demo_env [bob, alice] (Some ''tok'')
       = (Inr (Json 200 ''Email verified successfully.''), [bob, alice\<lparr>isVerified := True\<rparr>])"
    by (simp add: verifyEmail_def createHash_def findOne_def save_def demo_env_def
        bob_def alice_def)
  have found: "findOne (\<lambda>u. emailVerificationToken u = Some (sha256 demo_env ''tok'')) [bob, alice]
      = Some alice"
    by (simp add: findOne_def demo_env_def bob_def alice_def)
  from verifyEmail_frame [OF d ok] found
  have "map emailVerificationToken [bob, alice\<lparr>isVerified := True\<rparr>]
          = map emailVerificationToken [bob, alice]
      \<and> findOne (\<lambda>u. emailVerificationToken u = Some (sha256 demo_env ''tok''))
          [bob, alice\<lparr>isVerified := True\<rparr>] = Some (alice\<lparr>isVerified := True\<rparr>)"
    by auto
  with d ok show ?thesis
    by (simp add: demo_env_def)
qed

subsection \<open>Password reset\<close>



text \<open>
  C4. When \<^verbatim>\<open>forgotPassword\<close> has found the user and written fingerprint and expiry,
  and \<^verbatim>\<open>sendEmail\<close> throws, the caller gets the 500 error, and the stored document is
  the user's document with both reset fields cleared: no document of that user holds a
  reset fingerprint or expiry. If no other user holds the fingerprint of the token that
  was not delivered, redeeming that token fails at any time.
\<close>

theorem forgotPassword_rollback:
  assumes found: "findOne (\<lambda>u. email u = em) s = Some u"
  shows "case forgotPassword e raw now False s em of
           (res, s') \<Rightarrow>
             res = Inl (AppError
                 ''There was an error sending the password reset email. Please try again later.''
                 500)
           \<and> findById (uid u) s'
               = Some (u\<lparr>passwordResetToken := None, passwordResetExpires := None\<rparr>)
           \<and> (\<forall>r\<in>set s'. uid r = uid u \<longrightarrow>
                 passwordResetToken r = None \<and> passwordResetExpires r = None)
           \<and> ((\<forall>r\<in>set s. passwordResetToken r = Some (sha256 e raw) \<longrightarrow> uid r = uid u) \<longrightarrow>
               (\<forall>now' pw cpw. resetPassword e now' s' (Some raw) pw cpw
                  = (Inl (AppError ''Password reset token is invalid or has expired.'' 400), s')))"
proof -
  define u1 where "u1 = snd (createPasswordResetToken e raw now u)"
  define u0 where "u0 = u\<lparr>passwordResetToken := None, passwordResetExpires := None\<rparr>"
  define s1 where "s1 = save u1 s"
  define s2 where "s2 = save u0 s1"
  have id1: "uid u1 = uid u" and id0: "uid u0 = uid u"
    and u10: "u1\<lparr>passwordResetToken := None, passwordResetExpires := None\<rparr> = u0"
    by (simp_all add: u1_def u0_def createPasswordResetToken_def)
  from findOne_SomeD [OF found] have mem: "u \<in> set s"
    by simp
  have s1: "s1 = map (\<lambda>r. if uid r = uid u then u1 else r) s"
    unfolding s1_def using save_stored [OF mem id1] .
  have "findById (uid u) s1 = Some u1"
    unfolding s1 using findById_replace [OF mem id1] .
  then have mem1: "u1 \<in> set s1"
    using findById_SomeD by blast
  have "s2 = map (\<lambda>r. if uid r = uid u1 then u0 else r) s1"
    unfolding s2_def using save_stored [OF mem1, of u0] id0 id1 by simp
  then have rep: "s2 = map (\<lambda>r. if uid r = uid u then u0 else r) s"
    using replace_twice [OF id1, of u0 s] by (simp add: s1 id1)
  have run: "forgotPassword e raw now False s em
       = (Inl (AppError
            ''There was an error sending the password reset email. Please try again later.''
            500), s2)"
    using found u10
    by (simp add: forgotPassword_def s2_def s1_def u1_def split_beta)
  have byid: "findById (uid u) s2 = Some u0"
    unfolding rep using findById_replace [OF mem id0] .
  have cleared: "\<forall>r\<in>set s2. uid r = uid u \<longrightarrow>
       passwordResetToken r = None \<and> passwordResetExpires r = None"
    unfolding rep by (auto simp: u0_def)
  have dead: "resetPassword e n s2 (Some raw) pw cpw
       = (Inl (AppError ''Password reset token is invalid or has expired.'' 400), s2)"
    if only: "\<forall>r\<in>set s. passwordResetToken r = Some (sha256 e raw) \<longrightarrow> uid r = uid u"
    for n pw cpw
  proof -
    let ?q = "\<lambda>u. passwordResetToken u = Some (sha256 e raw)
                 \<and> (case passwordResetExpires u of None \<Rightarrow> False | Some x \<Rightarrow> x > n)"
    have "\<not> ?q u0"
      by (simp add: u0_def)
    then have "findOne ?q s2 = None"
      unfolding rep using findOne_replace_None [of s ?q "uid u" u0] only by simp
    then show ?thesis
      by (simp add: resetPassword_def createHash_def)
  qed
  show ?thesis
    unfolding run prod.case u0_def [symmetric]
  proof (intro conjI impI allI)
    show "findById (uid u) s2 = Some u0" by (rule byid)
  next
    show "\<forall>r\<in>set s2. uid r = uid u \<longrightarrow>
       passwordResetToken r = None \<and> passwordResetExpires r = None" by (rule cleared)
  next
    fix n pw cpw
    assume "\<forall>r\<in>set s. passwordResetToken r = Some (sha256 e raw) \<longrightarrow> uid r = uid u"
    then show "resetPassword e n s2 (Some raw) pw cpw
       = (Inl (AppError ''Password reset token is invalid or has expired.'' 400), s2)"
      by (rule dead)
  qed (rule refl)
qed

theorem forgotPassword_rollback_witness:
  "findOne (\<lambda>u. email u = ''a@x.com'') [alice_pending] = Some alice_pending
   \<and> forgotPassword demo_env ''new'' 700000 False [alice_pending] ''a@x.com''
     = (Inl (AppError
          ''There was an error sending the password reset email. Please try again later.''
          500),
        [alice_pending\<lparr>passwordResetToken := None, passwordResetExpires := None\<rparr>])
   \<and> resetPassword demo_env 700001
        [alice_pending\<lparr>passwordResetToken := None, passwordResetExpires := None\<rparr>]
        (Some ''new'') ''NewPw123'' ''NewPw123''
     = (Inl (AppError ''Password reset token is invalid or has expired.'' 400),
        [alice_pending\<lparr>passwordResetToken := None, passwordResetExpires := None\<rparr>])"
proof -
  have found: "findOne (\<lambda>u. email u = ''a@x.com'') [alice_pending] = Some alice_pending"
    by (simp add: findOne_def alice_pending_def alice_def)
  have only: "\<forall>r\<in>set [alice_pending].
      passwordResetToken r = Some (sha256 demo_env ''new'') \<longrightarrow> uid r = uid alice_pending"
    by simp
  have run: "forgotPassword demo_env ''new'' 700000 False [alice_pending] ''a@x.com''
     = (Inl (AppError
          ''There was an error sending the password reset email. Please try again later.''
          500),
        [alice_pending\<lparr>passwordResetToken := None, passwordResetExpires := None\<rparr>])"
    using found
    by (simp add: forgotPassword_def createPasswordResetToken_def save_def)
  have "resetPassword demo_env 700001
        [alice_pending\<lparr>passwordResetToken := None, passwordResetExpires := None\<rparr>]
        (Some ''new'') ''NewPw123'' ''NewPw123''
     = (Inl (AppError ''Password reset token is invalid or has expired.'' 400),
        [alice_pending\<lparr>passwordResetToken := None, passwordResetExpires := None\<rparr>])"
    using forgotPassword_rollback [OF found, of demo_env "''new''" 700000] only
    unfolding run prod.case by blast
  with found run show ?thesis
    by simp
qed

text \<open>
  C6. \<^verbatim>\<open>resetPassword\<close> with a raw token answers the 400
  \<open>Password reset token is invalid or has expired.\<close> and writes nothing exactly when every
  document that holds the token's fingerprint (there may be none) has no expiry or an
  expiry that is not later than the current time. An unknown token and an expired one
  get the same error. A token issued at 1000 expires at 1000 + 10 min and is rejected
  at that very time.
\<close>

theorem resetPassword_invalid_or_expired:
  "(resetPassword e now s (Some t) pw cpw
      = (Inl (AppError ''Password reset token is invalid or has expired.'' 400), s))
   \<longleftrightarrow> (\<forall>u\<in>set s. passwordResetToken u = Some (sha256 e t) \<longrightarrow>
           (case passwordResetExpires u of None \<Rightarrow> True | Some x \<Rightarrow> x \<le> now))"
proof -
  let ?q = "\<lambda>u. passwordResetToken u = Some (sha256 e t)
               \<and> (case passwordResetExpires u of None \<Rightarrow> False | Some x \<Rightarrow> x > now)"
  have "(resetPassword e now s (Some t) pw cpw
      = (Inl (AppError ''Password reset token is invalid or has expired.'' 400), s))
      \<longleftrightarrow> findOne ?q s = None"
    by (simp add: resetPassword_def createHash_def Let_def split: option.splits)
  also have "\<dots> \<longleftrightarrow> (\<forall>u\<in>set s. passwordResetToken u = Some (sha256 e t) \<longrightarrow>
           (case passwordResetExpires u of None \<Rightarrow> True | Some x \<Rightarrow> x \<le> now))"
    unfolding findOne_None_iff by (auto split: option.splits)
  finally show ?thesis .
qed

theorem resetPassword_invalid_or_expired_witness:
  "forgotPassword demo_env ''rst'' 1000 True [alice\<lparr>isVerified := True\<rparr>] ''a@x.com''
     = (Inr (Json 200 ''Password reset email sent. Please check your email.''), [alice_pending])
   \<and> passwordResetToken alice_pending = Some (sha256 demo_env ''rst'')
   \<and> passwordResetExpires alice_pending = Some (1000 + 10 * 60 * 1000)
   \<and> resetPassword demo_env (1000 + 10 * 60 * 1000) [alice_pending] (Some ''rst'')
        ''NewPw123'' ''NewPw123''
     = (Inl (AppError ''Password reset token is invalid or has expired.'' 400), [alice_pending])
   \<and> resetPassword demo_env 5000 [alice_pending] (Some ''nop'') ''NewPw123'' ''NewPw123''
     = (Inl (AppError ''Password reset token is invalid or has expired.'' 400), [alice_pending])"
proof -
  have issue: "forgotPassword demo_env ''rst'' 1000 True [alice\<lparr>isVerified := True\<rparr>] ''a@x.com''
     = (Inr (Json 200 ''Password reset email sent. Please check your email.''), [alice_pending])"
    by (simp add: forgotPassword_def createPasswordResetToken_def findOne_def save_def
        demo_env_def alice_pending_def alice_def)
  have expired: "\<forall>u\<in>set [alice_pending]. passwordResetToken u = Some (sha256 demo_env ''rst'') \<longrightarrow>
         (case passwordResetExpires u of None \<Rightarrow> True | Some x \<Rightarrow> x \<le> 1000 + 10 * 60 * 1000)"
    by (simp add: alice_pending_def)
  have nomatch: "\<forall>u\<in>set [alice_pending]. passwordResetToken u = Some (sha256 demo_env ''nop'') \<longrightarrow>
         (case passwordResetExpires u of None \<Rightarrow> True | Some x \<Rightarrow> x \<le> 5000)"
    by (simp add: alice_pending_def demo_env_def)
  have fields: "passwordResetToken alice_pending = Some (sha256 demo_env ''rst'')"
    "passwordResetExpires alice_pending = Some (1000 + 10 * 60 * 1000)"
    by (simp_all add: alice_pending_def demo_env_def)
  have late: "resetPassword demo_env (1000 + 10 * 60 * 1000) [alice_pending] (Some ''rst'')
        ''NewPw123'' ''NewPw123''
     = (Inl (AppError ''Password reset token is invalid or has expired.'' 400), [alice_pending])"
    using expired
      resetPassword_invalid_or_expired [of demo_env "1000 + 10 * 60 * 1000" "[alice_pending]"
        "''rst''" "''NewPw123''" "''NewPw123''"]
    by (rule iffD2 [rotated])
  have unknown: "resetPassword demo_env 5000 [alice_pending] (Some ''nop'') ''NewPw123'' ''NewPw123''
     = (Inl (AppError ''Password reset token is invalid or has expired.'' 400), [alice_pending])"
    using nomatch
      resetPassword_invalid_or_expired [of demo_env 5000 "[alice_pending]"
        "''nop''" "''NewPw123''" "''NewPw123''"]
    by (rule iffD2 [rotated])
  from issue fields late unknown show ?thesis
    by (intro conjI)
qed

subsection \<open>Login\<close>

text \<open>
  C5. With a non-blank email and password, \<^verbatim>\<open>login\<close> answers the same error, the 401
  \<open>Invalid email or password.\<close>, when no document has the email and when the document
  with the email does not match the password.
\<close>

theorem login_same_failure:
  assumes "em \<noteq> []" and "pw \<noteq> []"
    and unknown: "findOne (\<lambda>u. email u = em) s1 = None"
    and known: "findOne (\<lambda>u. email u = em) s2 = Some u"
    and wrong: "\<not> matchPassword e pw (password u)"
  shows "login e s1 (Some em) (Some pw) = Inl (AppError ''Invalid email or password.'' 401)
       \<and> login e s2 (Some em) (Some pw) = Inl (AppError ''Invalid email or password.'' 401)"
  using assms by (simp add: login_def falsy_def)

theorem login_same_failure_witness:
  "''a@x.com'' \<noteq> [] \<and> ''Wrong123'' \<noteq> []
   \<and> findOne (\<lambda>u. email u = ''a@x.com'') [] = None
   \<and> findOne (\<lambda>u. email u = ''a@x.com'') [alice_pending] = Some alice_pending
   \<and> \<not> matchPassword demo_env ''Wrong123'' (password alice_pending)
   \<and> login demo_env [] (Some ''a@x.com'') (Some ''Wrong123'')
       = Inl (AppError ''Invalid email or password.'' 401)
   \<and> login demo_env [alice_pending] (Some ''a@x.com'') (Some ''Wrong123'')
       = Inl (AppError ''Invalid email or password.'' 401)"
proof -
  have a: "''a@x.com'' \<noteq> []" and b: "''Wrong123'' \<noteq> []"
    by simp_all
  have unknown: "findOne (\<lambda>u. email u = ''a@x.com'') [] = None"
    by (simp add: findOne_def)
  have known: "findOne (\<lambda>u. email u = ''a@x.com'') [alice_pending] = Some alice_pending"
    by (simp add: findOne_def alice_pending_def alice_def)
  have wrong: "\<not> matchPassword demo_env ''Wrong123'' (password alice_pending)"
    by (simp add: demo_env_def alice_pending_def alice_def)
  from login_same_failure [OF a b unknown known wrong] a b unknown known wrong
  show ?thesis by simp
qed

subsection \<open>The protected-route gate\<close>





text \<open>
  C9. \<^verbatim>\<open>protected\<close> never answers \<open>You are not logged in! Please log in to get access.\<close>:
  a missing or empty token is rejected by the check before, with \<open>Invalid token provided\<close>.
\<close>

theorem protected_never_not_logged_in:
  "protected e s authorization
     \<noteq> Inl (AppError ''You are not logged in! Please log in to get access.'' 401)
   \<and> (falsy (bearer_token authorization) \<longrightarrow>
        protected e s authorization = Inl (AppError ''Invalid token provided'' 401))"
  by (simp add: protected_def Let_def split: option.splits sum.splits)

theorem protected_never_not_logged_in_witness:
  "falsy (bearer_token None)
   \<and> protected demo_env [alice] None = Inl (AppError ''Invalid token provided'' 401)
   \<and> protected demo_env [alice] None
       \<noteq> Inl (AppError ''You are not logged in! Please log in to get access.'' 401)"
proof -
  have "falsy (bearer_token None)"
    by (simp add: bearer_token_def falsy_def)
  with protected_never_not_logged_in [of demo_env "[alice]" None] show ?thesis
    by simp
qed

subsection \<open>Failures and the store\<close>

text \<open>The failures that come before any write leave the collection as it was.\<close>

lemma failure_before_write:
  "fst (verifyEmail e s tok) = Inl x \<Longrightarrow> snd (verifyEmail e s tok) = s"
  "fst (resetPassword e now s tok pw cpw) = Inl x \<Longrightarrow> snd (resetPassword e now s tok pw cpw) = s"
  "findOne (\<lambda>u. email u = em) s = None \<Longrightarrow> snd (forgotPassword e raw now sent s em) = s"
  "findOne (\<lambda>u. email u = em) s \<noteq> None \<or> \<not> validate e em pw cpw \<Longrightarrow>
     snd (signup e i raw sent s em pw cpw) = s"
  by (auto simp: verifyEmail_def resetPassword_def forgotPassword_def signup_def createHash_def
      createEmailVerificationToken_def Let_def split: option.splits sum.splits if_splits)

lemma signup_mail_failure:
  assumes "findOne (\<lambda>u. email u = em) s = None" and "validate e em pw cpw"
  shows "signup e i raw False s em pw cpw
       = (Inl (Thrown MailError),
          save \<lparr>uid = i, email = em, password = hashPassword e pw, isVerified = False,
                emailVerificationToken = Some (sha256 e raw), passwordResetToken = None,
                passwordResetExpires = None\<rparr> s)"
  using assms by (simp add: signup_def createEmailVerificationToken_def)

text \<open>
  C2, at the input where the code departs from it: \<^verbatim>\<open>signup\<close> of \<open>a@x.com\<close> on an empty
  collection, with \<^verbatim>\<open>sendEmail\<close> throwing. The request fails with the mail error, and
  the unverified document stays in the collection: a later \<^verbatim>\<open>signup\<close> with the same
  address is refused with \<open>User already exists with this email address.\<close>
\<close>

theorem signup_mail_failure_keeps_record:
  "signup demo_env ''u1'' ''tok'' False [] ''a@x.com'' ''Pw123456'' ''Pw123456''
     = (Inl (Thrown MailError), [alice])
   \<and> signup demo_env ''u3'' ''tok3'' True [alice] ''a@x.com'' ''Pw123456'' ''Pw123456''
     = (Inl (AppError ''User already exists with this email address.'' 400), [alice])"
  by (simp add: signup_def createEmailVerificationToken_def validate_def findOne_def save_def
      demo_env_def alice_def)

text \<open>
  C10. Without a \<^verbatim>\<open>token\<close> query parameter, \<^verbatim>\<open>verifyEmail\<close> and \<^verbatim>\<open>resetPassword\<close>
  fail with the \<^verbatim>\<open>TypeError\<close> that the fingerprint computation throws, whatever the
  collection holds, and write nothing. An \<^verbatim>\<open>AppError\<close> from either handler, the 400 for
  an invalid token among them, means that a token was present.
\<close>

theorem missing_token_throws:
  "verifyEmail e s None = (Inl (Thrown TypeError), s)
   \<and> resetPassword e now s None pw cpw = (Inl (Thrown TypeError), s)
   \<and> (fst (verifyEmail e s tok) = Inl (AppError m c) \<longrightarrow> tok \<noteq> None)
   \<and> (fst (resetPassword e now s tok pw cpw) = Inl (AppError m c) \<longrightarrow> tok \<noteq> None)"
  by (cases tok) (simp_all add: verifyEmail_def resetPassword_def createHash_def)

theorem missing_token_throws_witness:
  "verifyEmail demo_env [alice] None = (Inl (Thrown TypeError), [alice])
   \<and> resetPassword demo_env 5000 [alice_pending] None ''NewPw123'' ''NewPw123''
       = (Inl (Thrown TypeError), [alice_pending])
   \<and> fst (verifyEmail demo_env [alice] (Some ''bad''))
       = Inl (AppError ''Invalid or expired verification token.'' 400)
   \<and> Some ''bad'' \<noteq> None"
proof -
  have "fst (verifyEmail demo_env [alice] (Some ''bad''))
       = Inl (AppError ''Invalid or expired verification token.'' 400)"
    by (simp add: verifyEmail_def createHash_def findOne_def demo_env_def alice_def)
  with missing_token_throws [of demo_env "[alice]" 5000 "''NewPw123''" "''NewPw123''"
      "Some ''bad''" "''Invalid or expired verification token.''" 400]
    missing_token_throws [of demo_env "[alice_pending]" 5000 "''NewPw123''" "''NewPw123''"]
  show ?thesis
    by simp
qed

end
